theory Spec2Isabelle
  imports Complex_Main "HOL-Library.Sublist" "HOL-Library.Multiset"
begin

section \<open>Data model\<close>

text \<open>
  The repository is one function, \<open>clean_outliers(data, outliers_csv)\<close> of
  \<^verbatim>\<open>src/clean_outliers.py\<close>, written against pandas. The embedding keeps the
  part of a DataFrame the function reads and writes:
  \<^item> a frame is its column index (label and dtype of every column, in declared order) and
    its rows in order, each row with its index label and one cell per column;
  \<^item> a cell of a numeric column is a number or the missing value NaN; a cell of any other
    column is an opaque object;
  \<^item> numbers are exact rationals: the rounding of float64 is not modelled, the missing
    value is. A float that may be NaN is a \<open>rat option\<close>, \<open>None\<close> being NaN;
  \<^item> column labels of a frame are taken to be distinct, and every row of a frame has one
    cell per column, as a DataFrame has (\<open>wf_frame\<close>).
\<close>

datatype cell = Num rat | NaN | Obj string

datatype dtype = Int64 | Float64 | Object

record row =
  label :: int
  cells :: "cell list"

record frame =
  columns :: "(string \<times> dtype) list"
  rows :: "row list"

text \<open>A Series as \<open>iterrows\<close> yields it: the row's label, the column labels, the values.\<close>

record series =
  sname :: int
  sindex :: "string list"
  svalues :: "cell list"

type_synonym float = "rat option"

datatype error = AttributeError | OSError

text \<open>One printed line: \<^verbatim>\<open>Outlier in row {index} for column '{column}': {row[column]}\<close>.\<close>

datatype message = Outlier_in_row int string cell

text \<open>
  The file \<open>to_csv(path, index=False)\<close> writes: the header line's fields, then one record
  per row. The text layer (separators, quoting, the formatting of numbers) is pandas'.
\<close>

record csv =
  header :: "string list"
  records :: "cell list list"

text \<open>
  What the call can touch: the DataFrame objects (a store from references to frames, with
  the next unused reference), the standard output, the file system.
\<close>

record world =
  heap :: "nat \<Rightarrow> frame"
  fresh :: nat
  stdout :: "message list"
  files :: "string \<Rightarrow> csv option"
  writable :: "string \<Rightarrow> bool"

text \<open>The function's local variables inside the loop, with the world they run in.\<close>

record env =
  world :: world
  cleaned_data :: nat
  outlier_rows :: "series list"


section \<open>Float arithmetic with NaN\<close>

fun as_float :: "cell \<Rightarrow> float" where
  "as_float (Num x) = Some x"
| "as_float NaN = None"
| "as_float (Obj s) = None"

fun fsub :: "float \<Rightarrow> float \<Rightarrow> float" where
  "fsub (Some x) (Some y) = Some (x - y)"
| "fsub _ _ = None"

fun fadd :: "float \<Rightarrow> float \<Rightarrow> float" where
  "fadd (Some x) (Some y) = Some (x + y)"
| "fadd _ _ = None"

fun fmul :: "float \<Rightarrow> float \<Rightarrow> float" where
  "fmul (Some x) (Some y) = Some (x * y)"
| "fmul _ _ = None"

text \<open>A comparison with NaN on either side is false.\<close>

fun flt :: "float \<Rightarrow> float \<Rightarrow> bool" where
  "flt (Some x) (Some y) = (x < y)"
| "flt _ _ = False"

fun fgt :: "float \<Rightarrow> float \<Rightarrow> bool" where
  "fgt (Some x) (Some y) = (x > y)"
| "fgt _ _ = False"

section \<open>The pandas operations the function calls\<close>

definition is_numeric_dtype :: "dtype \<Rightarrow> bool" where
  "is_numeric_dtype t = (t = Int64 \<or> t = Float64)"

text \<open>Position of a label in a column index (the first one with that label).\<close>

definition get_loc :: "string list \<Rightarrow> string \<Rightarrow> nat" where
  "get_loc names c = length (takeWhile (\<lambda>n. n \<noteq> c) names)"

text \<open>\<open>df[column]\<close>: the column's cells, in row order, and its dtype.\<close>

definition getitem :: "frame \<Rightarrow> string \<Rightarrow> cell list" where
  "getitem df column = map (\<lambda>r. cells r ! get_loc (map fst (columns df)) column) (rows df)"

definition dtype_of :: "frame \<Rightarrow> string \<Rightarrow> dtype" where
  "dtype_of df column = snd (columns df ! get_loc (map fst (columns df)) column)"

text \<open>\<open>row[column]\<close> on a Series.\<close>

definition series_get :: "series \<Rightarrow> string \<Rightarrow> cell" where
  "series_get s column = svalues s ! get_loc (sindex s) column"

definition dropna :: "cell list \<Rightarrow> rat list" where
  "dropna col = List.map_filter as_float col"

text \<open>
  \<open>Series.quantile(q)\<close> with the default \<open>interpolation='linear'\<close>: missing values are
  skipped; with no value left the result is NaN; otherwise, over the n sorted values, the
  virtual index is \<open>q * (n - 1)\<close>, and the result lies between the value at its floor and
  the next one (clipped to the last), at the fractional part. The source calls it with
  0.25 and 0.75 only, so the floor stays within the n values.
\<close>

definition quantile :: "cell list \<Rightarrow> rat \<Rightarrow> float" where
  "quantile col q =
     (let vs = sort (dropna col); n = length vs in
      if n = 0 then None
      else
        let h = q * of_nat (n - 1);
            lo = nat \<lfloor>h\<rfloor>;
            hi = min (lo + 1) (n - 1);
            g = h - of_nat lo
        in Some (vs ! lo + (vs ! hi - vs ! lo) * g))"

text \<open>\<open>df[mask]\<close> with a boolean mask: the rows whose mask entry is true, in order.\<close>

definition getitem_mask :: "frame \<Rightarrow> bool list \<Rightarrow> frame" where
  "getitem_mask df bs = df\<lparr>rows := map fst (filter snd (zip (rows df) bs))\<rparr>"

definition iterrows :: "frame \<Rightarrow> (int \<times> series) list" where
  "iterrows df =
     map (\<lambda>r. (label r, \<lparr>sname = label r, sindex = map fst (columns df), svalues = cells r\<rparr>))
       (rows df)"

text \<open>Every DataFrame the function builds is a new object.\<close>

definition alloc :: "frame \<Rightarrow> world \<Rightarrow> nat \<times> world" where
  "alloc df w = (fresh w, w\<lparr>heap := (heap w)(fresh w := df), fresh := Suc (fresh w)\<rparr>)"

text \<open>
  \<open>pd.DataFrame(list of Series)\<close>: no Series gives the empty frame, with no column; otherwise
  the columns are the Series' index (here the same for all of them) and each Series is a
  row. The dtypes of the new frame only decide how \<open>to_csv\<close> formats a value.
\<close>

definition infer_dtype :: "cell list \<Rightarrow> dtype" where
  "infer_dtype col = (if list_all (\<lambda>c. case c of Obj s \<Rightarrow> False | _ \<Rightarrow> True) col then Float64 else Object)"

definition DataFrame :: "series list \<Rightarrow> frame" where
  "DataFrame rs =
     (case rs of
        [] \<Rightarrow> \<lparr>columns = [], rows = []\<rparr>
      | r # _ \<Rightarrow>
          \<lparr>columns = map (\<lambda>n. (n, infer_dtype (map (\<lambda>s. series_get s n) rs))) (sindex r),
           rows = map (\<lambda>s. \<lparr>label = sname s, cells = svalues s\<rparr>) rs\<rparr>)"

text \<open>
  \<open>df.to_csv(path, index=False)\<close>: the header is the frame's column labels, the index
  labels are not written; an existing file is replaced; a path that cannot be written
  raises.
\<close>

definition to_csv :: "frame \<Rightarrow> string \<Rightarrow> world \<Rightarrow> error + world" where
  "to_csv df path w =
     (if writable w path
      then Inr (w\<lparr>files := (files w)(path \<mapsto> \<lparr>header = map fst (columns df), records = map cells (rows df)\<rparr>)\<rparr>)
      else Inl OSError)"

section \<open>clean\_outliers\<close>

definition Q1 :: "frame \<Rightarrow> string \<Rightarrow> float" where
  "Q1 df column = quantile (getitem df column) (1/4)"

definition Q3 :: "frame \<Rightarrow> string \<Rightarrow> float" where
  "Q3 df column = quantile (getitem df column) (3/4)"

definition IQR :: "frame \<Rightarrow> string \<Rightarrow> float" where
  "IQR df column = fsub (Q3 df column) (Q1 df column)"

definition lower_bound :: "frame \<Rightarrow> string \<Rightarrow> float" where
  "lower_bound df column = fsub (Q1 df column) (fmul (Some (3/2)) (IQR df column))"

definition upper_bound :: "frame \<Rightarrow> string \<Rightarrow> float" where
  "upper_bound df column = fadd (Q3 df column) (fmul (Some (3/2)) (IQR df column))"

text \<open>\<open>(cleaned_data[column] < lower_bound) | (cleaned_data[column] > upper_bound)\<close>\<close>

definition outlier_mask :: "frame \<Rightarrow> string \<Rightarrow> bool list" where
  "outlier_mask df column =
     map (\<lambda>v. flt (as_float v) (lower_bound df column) \<or> fgt (as_float v) (upper_bound df column))
       (getitem df column)"

text \<open>The inner loop: print the row and the value, collect the row.\<close>

fun report :: "string \<Rightarrow> (int \<times> series) list \<Rightarrow> env \<Rightarrow> env" where
  "report column [] s = s"
| "report column ((index, row) # rest) s =
     report column rest
       (s\<lparr>world := (world s)\<lparr>stdout := stdout (world s) @ [Outlier_in_row index column (series_get row column)]\<rparr>,
          outlier_rows := outlier_rows s @ [row]\<rparr>)"

text \<open>The body of the loop over the columns.\<close>

definition loop_body :: "string \<Rightarrow> env \<Rightarrow> env" where
  "loop_body column s =
     (let df = heap (world s) (cleaned_data s) in
      if is_numeric_dtype (dtype_of df column) then
        let (outliers, w1) = alloc (getitem_mask df (outlier_mask df column)) (world s);
            s1 = report column (iterrows (heap w1 outliers)) (s\<lparr>world := w1\<rparr>);
            (kept, w2) = alloc (getitem_mask df (map Not (outlier_mask df column))) (world s1)
        in s1\<lparr>world := w2, cleaned_data := kept\<rparr>
      else s)"

text \<open>
  The function: \<open>data\<close> is a reference to the caller's DataFrame, or \<open>None\<close>. The result is
  the reference of the cleaned frame, or the exception raised, with the world as the call
  leaves it.
\<close>

definition clean_outliers :: "nat option \<Rightarrow> string \<Rightarrow> world \<Rightarrow> (error + nat) \<times> world" where
  "clean_outliers data outliers_csv w =
     (case data of
        None \<Rightarrow> (Inl AttributeError, w)
      | Some d \<Rightarrow>
          let (c, w0) = alloc (heap w d) w;
              s = fold loop_body (map fst (columns (heap w0 c)))
                    \<lparr>world = w0, cleaned_data = c, outlier_rows = []\<rparr>;
              (outliers_df, w1) = alloc (DataFrame (outlier_rows s)) (world s)
          in case to_csv (heap w1 outliers_df) outliers_csv w1 of
               Inl e \<Rightarrow> (Inl e, w1)
             | Inr w2 \<Rightarrow> (Inr (cleaned_data s), w2))"

section \<open>Notions the properties are stated with\<close>

text \<open>The frame \<open>cleaned_data\<close> refers to.\<close>

definition working :: "env \<Rightarrow> frame" where
  "working s = heap (world s) (cleaned_data s)"

text \<open>The cell of a row in a column of the frame.\<close>

definition cell_at :: "frame \<Rightarrow> string \<Rightarrow> row \<Rightarrow> cell" where
  "cell_at df column r = cells r ! get_loc (map fst (columns df)) column"

text \<open>The entry of \<open>outlier_mask\<close> for a row.\<close>

definition is_outlier :: "frame \<Rightarrow> string \<Rightarrow> row \<Rightarrow> bool" where
  "is_outlier df column r \<longleftrightarrow>
     flt (as_float (cell_at df column r)) (lower_bound df column) \<or>
     fgt (as_float (cell_at df column r)) (upper_bound df column)"

text \<open>The Series \<open>iterrows\<close> makes of a row.\<close>

definition to_series :: "frame \<Rightarrow> row \<Rightarrow> series" where
  "to_series df r = \<lparr>sname = label r, sindex = map fst (columns df), svalues = cells r\<rparr>"

text \<open>The row a collected Series was made of.\<close>

definition row_of :: "series \<Rightarrow> row" where
  "row_of s = \<lparr>label = sname s, cells = svalues s\<rparr>"


text \<open>The variables before the loop: the copy of \<open>data\<close>, no row collected.\<close>

definition start :: "nat \<Rightarrow> world \<Rightarrow> env" where
  "start d w = \<lparr>world = snd (alloc (heap w d) w), cleaned_data = fst (alloc (heap w d) w), outlier_rows = []\<rparr>"

text \<open>The variables after the loop over the columns, started on the copy of \<open>data\<close>.\<close>

definition after_loop :: "nat \<Rightarrow> world \<Rightarrow> env" where
  "after_loop d w =
     (let (c, w0) = alloc (heap w d) w
      in fold loop_body (map fst (columns (heap w0 c)))
           \<lparr>world = w0, cleaned_data = c, outlier_rows = []\<rparr>)"


definition world_with :: "frame \<Rightarrow> world" where
  "world_with df = \<lparr>heap = (\<lambda>_. df), fresh = 1, stdout = [], files = (\<lambda>_. None), writable = (\<lambda>_. True)\<rparr>"

text \<open>A table with one column of strings.\<close>

definition names_frame :: frame where
  "names_frame =
     \<lparr>columns = [(''name'', Object)],
      rows = [\<lparr>label = 0, cells = [Obj ''ann'']\<rparr>, \<lparr>label = 1, cells = [Obj ''bob'']\<rparr>]\<rparr>"



text \<open>A table with one column, given by its label, its dtype and its rows' labels and values.\<close>

definition single_column :: "string \<Rightarrow> dtype \<Rightarrow> (int \<times> rat) list \<Rightarrow> frame" where
  "single_column c t xs =
     \<lparr>columns = [(c, t)], rows = map (\<lambda>(l, v). \<lparr>label = l, cells = [Num v]\<rparr>) xs\<rparr>"

text \<open>The single-column table with the values 1, 2, 3, 1000.\<close>

definition example_frame :: frame where
  "example_frame = single_column ''A'' Int64 [(0, 1), (1, 2), (2, 3), (3, 1000)]"








section \<open>The loop body and the loop\<close>

lemma filter_zip_map: "map fst (filter snd (zip xs (map P xs))) = filter P xs"
  by (induction xs) auto

lemma getitem_mask_outliers:
  "getitem_mask df (outlier_mask df c) = df\<lparr>rows := filter (is_outlier df c) (rows df)\<rparr>"
  unfolding getitem_mask_def outlier_mask_def getitem_def
  by (simp add: filter_zip_map is_outlier_def[abs_def] cell_at_def comp_def)

lemma getitem_mask_kept:
  "getitem_mask df (map Not (outlier_mask df c)) = df\<lparr>rows := filter (\<lambda>r. \<not> is_outlier df c r) (rows df)\<rparr>"
  unfolding getitem_mask_def outlier_mask_def getitem_def
  by (simp add: filter_zip_map is_outlier_def[abs_def] cell_at_def comp_def)

lemma report_eq:
  "report c xs s =
     s\<lparr>world := (world s)\<lparr>stdout := stdout (world s) @ map (\<lambda>(i, r). Outlier_in_row i c (series_get r c)) xs\<rparr>,
       outlier_rows := outlier_rows s @ map snd xs\<rparr>"
  by (induction xs arbitrary: s) (auto)

lemma loop_body_numeric:
  assumes "is_numeric_dtype (dtype_of (working s) c)"
  shows "working (loop_body c s) = (working s)\<lparr>rows := filter (\<lambda>r. \<not> is_outlier (working s) c r) (rows (working s))\<rparr>"
    and "outlier_rows (loop_body c s) = outlier_rows s @ map (to_series (working s)) (filter (is_outlier (working s) c) (rows (working s)))"
    and "stdout (world (loop_body c s)) = stdout (world s) @ map (\<lambda>r. Outlier_in_row (label r) c (cell_at (working s) c r)) (filter (is_outlier (working s) c) (rows (working s)))"
    and "files (world (loop_body c s)) = files (world s)"
    and "writable (world (loop_body c s)) = writable (world s)"
    and "fresh (world (loop_body c s)) = Suc (Suc (fresh (world s)))"
    and "cleaned_data (loop_body c s) = Suc (fresh (world s))"
    and "\<And>r. r < fresh (world s) \<Longrightarrow> heap (world (loop_body c s)) r = heap (world s) r"
  using assms
  unfolding loop_body_def working_def
  by (simp_all add: Let_def alloc_def report_eq getitem_mask_outliers getitem_mask_kept iterrows_def
      to_series_def comp_def series_get_def cell_at_def split_def)

lemma loop_body_skip:
  "\<not> is_numeric_dtype (dtype_of (working s) c) \<Longrightarrow> loop_body c s = s"
  unfolding loop_body_def working_def by simp

lemma row_of_to_series [simp]: "row_of (to_series df r) = r"
  by (simp add: row_of_def to_series_def)




lemma loop_body_world:
  "files (world (loop_body c s)) = files (world s)"
  "writable (world (loop_body c s)) = writable (world s)"
  "fresh (world s) \<le> fresh (world (loop_body c s))"
  "r < fresh (world s) \<Longrightarrow> heap (world (loop_body c s)) r = heap (world s) r"
  by (cases "is_numeric_dtype (dtype_of (working s) c)";
      simp add: loop_body_numeric loop_body_skip)+

lemma fold_world:
  "files (world (fold loop_body cs s)) = files (world s)"
  "writable (world (fold loop_body cs s)) = writable (world s)"
  "fresh (world s) \<le> fresh (world (fold loop_body cs s))"
  "r < fresh (world s) \<Longrightarrow> heap (world (fold loop_body cs s)) r = heap (world s) r"
proof (induction cs arbitrary: s)
  case Nil
  { case 1 show ?case by simp }
  { case 2 show ?case by simp }
  { case 3 show ?case by simp }
  { case 4 show ?case by simp }
next
  case (Cons c cs)
  { case 1 show ?case by (simp add: Cons.IH(1) loop_body_world(1)) }
  { case 2 show ?case by (simp add: Cons.IH(2) loop_body_world(2)) }
  { case 3 show ?case
      using Cons.IH(3)[of "loop_body c s"] loop_body_world(3)[of s c] by simp }
  { case 4
    then have "r < fresh (world (loop_body c s))"
      using loop_body_world(3)[of s c] by simp
    then show ?case
      using Cons.IH(4)[of "loop_body c s"] loop_body_world(4)[of r s c] 4 by simp }
qed






lemma loop_body_cleaned_fresh:
  "cleaned_data s < fresh (world s) \<Longrightarrow> cleaned_data (loop_body c s) < fresh (world (loop_body c s))"
  by (cases "is_numeric_dtype (dtype_of (working s) c)")
     (simp_all add: loop_body_numeric loop_body_skip)

lemma loop_body_cleaned_ge: "n \<le> cleaned_data s \<Longrightarrow> cleaned_data s < fresh (world s) \<Longrightarrow> n \<le> cleaned_data (loop_body c s)"
  by (cases "is_numeric_dtype (dtype_of (working s) c)")
     (simp_all add: loop_body_numeric loop_body_skip)

lemma fold_cleaned_ge_aux:
  "n \<le> cleaned_data s \<Longrightarrow> cleaned_data s < fresh (world s) \<Longrightarrow> n \<le> cleaned_data (fold loop_body cs s)"
  by (induction cs arbitrary: s) (simp_all add: loop_body_cleaned_ge loop_body_cleaned_fresh)

lemma fold_cleaned_ge:
  "cleaned_data s < fresh (world s) \<Longrightarrow> cleaned_data s \<le> cleaned_data (fold loop_body cs s)"
  by (rule fold_cleaned_ge_aux) simp_all

lemma fold_cleaned_fresh:
  "cleaned_data s < fresh (world s) \<Longrightarrow>
   cleaned_data (fold loop_body cs s) < fresh (world (fold loop_body cs s))"
  by (induction cs arbitrary: s) (simp_all add: loop_body_cleaned_fresh)

lemma start_simps:
  "working (start d w) = heap w d"
  "outlier_rows (start d w) = []"
  "stdout (world (start d w)) = stdout w"
  "files (world (start d w)) = files w"
  "writable (world (start d w)) = writable w"
  "fresh (world (start d w)) = Suc (fresh w)"
  "cleaned_data (start d w) = fresh w"
  "r < fresh w \<Longrightarrow> heap (world (start d w)) r = heap w r"
  by (simp_all add: start_def alloc_def working_def)

lemma after_loop_eq:
  "after_loop d w = fold loop_body (map fst (columns (heap w d))) (start d w)"
  by (simp add: after_loop_def start_def alloc_def)

lemma DataFrame_cells: "map cells (rows (DataFrame rs)) = map svalues rs"
  by (cases rs) (simp_all add: DataFrame_def comp_def)


lemma after_loop_world:
  "files (world (after_loop d w)) = files w"
  "writable (world (after_loop d w)) = writable w"
  "fresh w < fresh (world (after_loop d w))"
  "cleaned_data (after_loop d w) < fresh (world (after_loop d w))"
  "r < fresh w \<Longrightarrow> heap (world (after_loop d w)) r = heap w r"
proof -
  show "files (world (after_loop d w)) = files w"
    by (simp add: after_loop_eq fold_world(1) start_simps)
  show "writable (world (after_loop d w)) = writable w"
    by (simp add: after_loop_eq fold_world(2) start_simps)
  show "fresh w < fresh (world (after_loop d w))"
    using fold_world(3)[of "start d w" "map fst (columns (heap w d))"]
    by (simp add: after_loop_eq start_simps)
  show "cleaned_data (after_loop d w) < fresh (world (after_loop d w))"
    unfolding after_loop_eq by (rule fold_cleaned_fresh) (simp add: start_simps)
  show "heap (world (after_loop d w)) r = heap w r" if "r < fresh w"
    using that fold_world(4)[of r "start d w" "map fst (columns (heap w d))"]
    by (simp add: after_loop_eq start_simps)
qed

lemma clean_outliers_Some:
  "clean_outliers (Some d) p w =
     (let s = after_loop d w;
          w1 = (world s)\<lparr>heap := (heap (world s))(fresh (world s) := DataFrame (outlier_rows s)),
                         fresh := Suc (fresh (world s))\<rparr>
      in if writable w p
         then (Inr (cleaned_data s),
               w1\<lparr>files := (files w)(p \<mapsto> \<lparr>header = map fst (columns (DataFrame (outlier_rows s))),
                                              records = map svalues (outlier_rows s)\<rparr>)\<rparr>)
         else (Inl OSError, w1))"
proof -
  have "clean_outliers (Some d) p w =
     (let s = after_loop d w;
          (outliers_df, w1) = alloc (DataFrame (outlier_rows s)) (world s)
      in case to_csv (heap w1 outliers_df) p w1 of
           Inl e \<Rightarrow> (Inl e, w1)
         | Inr w2 \<Rightarrow> (Inr (cleaned_data s), w2))"
    by (simp add: clean_outliers_def after_loop_def split_def Let_def)
  then show ?thesis
    by (simp add: alloc_def Let_def to_csv_def after_loop_world DataFrame_cells)
qed

lemma clean_outliers_Inr:
  assumes "clean_outliers (Some d) p w = (Inr k, w')"
  shows "writable w p"
    and "heap w' k = working (after_loop d w)"
    and "stdout w' = stdout (world (after_loop d w))"
    and "files w' = (files w)(p \<mapsto> \<lparr>header = map fst (columns (DataFrame (outlier_rows (after_loop d w)))),
                                       records = map svalues (outlier_rows (after_loop d w))\<rparr>)"
    and "\<And>r. r < fresh w \<Longrightarrow> heap w' r = heap w r"
    and "fresh w \<le> k"
proof -
  show wr: "writable w p"
    using assms by (auto simp: clean_outliers_Some Let_def split: if_splits)
  have k: "k = cleaned_data (after_loop d w)"
    and w': "w' = (world (after_loop d w))\<lparr>heap := (heap (world (after_loop d w)))(fresh (world (after_loop d w)) := DataFrame (outlier_rows (after_loop d w))),
                         fresh := Suc (fresh (world (after_loop d w)))\<rparr>\<lparr>files := (files w)(p \<mapsto> \<lparr>header = map fst (columns (DataFrame (outlier_rows (after_loop d w)))),
                                              records = map svalues (outlier_rows (after_loop d w))\<rparr>)\<rparr>"
    using assms wr by (simp_all add: clean_outliers_Some Let_def)
  show "heap w' k = working (after_loop d w)"
    using after_loop_world(4)[of d w] by (simp add: k w' working_def)
  show "stdout w' = stdout (world (after_loop d w))"
    by (simp add: w')
  show "files w' = (files w)(p \<mapsto> \<lparr>header = map fst (columns (DataFrame (outlier_rows (after_loop d w)))),
                                       records = map svalues (outlier_rows (after_loop d w))\<rparr>)"
    by (simp add: w')
  show "heap w' r = heap w r" if "r < fresh w" for r
    using that after_loop_world(3)[of w d] after_loop_world(5)[of r w d] by (simp add: w')
  show "fresh w \<le> k"
    unfolding k after_loop_eq
    using fold_cleaned_ge[of "start d w"] by (simp add: start_simps)
qed

section \<open>The claims\<close>

text \<open>
  C8. When the table argument is \<open>None\<close>, the first statement, \<open>data.copy()\<close>, raises:
  the call returns the error to the caller and leaves the world as it found it, so no file
  is created or written and nothing is printed.
\<close>

theorem C8_missing_table_fails_at_once:
  "clean_outliers None outliers_csv w = (Inl AttributeError, w)"
  by (simp add: clean_outliers_def)

section \<open>Kept rows and collected rows\<close>



lemma svalues_row_of: "map svalues rs = map cells (map row_of rs)"
  by (simp add: row_of_def comp_def)


lemma clean_outliers_completes:
  assumes "writable w p"
  shows "clean_outliers (Some d) p w =
           (Inr (cleaned_data (after_loop d w)), snd (clean_outliers (Some d) p w))"
  using assms by (simp add: clean_outliers_Some Let_def)





section \<open>Tables without numeric columns\<close>

lemma get_loc_less: "c \<in> set names \<Longrightarrow> get_loc names c < length names"
  unfolding get_loc_def by (induction names) auto

lemma nth_get_loc: "c \<in> set names \<Longrightarrow> names ! get_loc names c = c"
  unfolding get_loc_def by (induction names) auto

lemma dtype_of_mem:
  assumes "c \<in> set (map fst (columns df))"
  shows "(c, dtype_of df c) \<in> set (columns df)"
proof -
  let ?i = "get_loc (map fst (columns df)) c"
  have i: "?i < length (columns df)"
    using get_loc_less[OF assms] by simp
  have "fst (columns df ! ?i) = c"
    using nth_get_loc[OF assms] i by simp
  then have "columns df ! ?i = (c, dtype_of df c)"
    by (simp add: dtype_of_def prod_eq_iff)
  then show ?thesis
    using nth_mem[OF i] by simp
qed

lemma fold_skip:
  assumes "\<forall>c \<in> set cs. \<not> is_numeric_dtype (dtype_of (working s) c)"
  shows "fold loop_body cs s = s"
  using assms by (induction cs) (simp_all add: loop_body_skip)

text \<open>
  C7. For a table none of whose columns is numeric, every pass skips its column: a call
  with a writable path returns a table equal to the input (same columns, same rows in the
  same order), prints nothing, and writes a file with no record. A pass over a column
  that is not numeric leaves all the variables as they are, whatever the table.
\<close>

theorem C7_no_numeric_column_keeps_everything:
  assumes "\<forall>c \<in> set (columns (heap w d)). \<not> is_numeric_dtype (snd c)"
    and "writable w outliers_csv"
  shows "(\<exists>k w'. clean_outliers (Some d) outliers_csv w = (Inr k, w') \<and>
            heap w' k = heap w d \<and>
            stdout w' = stdout w \<and>
            files w' outliers_csv = Some \<lparr>header = [], records = []\<rparr>) \<and>
         (\<forall>s c. \<not> is_numeric_dtype (dtype_of (working s) c) \<longrightarrow> loop_body c s = s)"
proof -
  have skip: "\<forall>c \<in> set (map fst (columns (heap w d))).
                \<not> is_numeric_dtype (dtype_of (working (start d w)) c)"
  proof
    fix c assume "c \<in> set (map fst (columns (heap w d)))"
    from dtype_of_mem[OF this] assms(1)
    show "\<not> is_numeric_dtype (dtype_of (working (start d w)) c)"
      by (auto simp: start_simps)
  qed
  have al: "after_loop d w = start d w"
    unfolding after_loop_eq by (rule fold_skip[OF skip])
  have run: "clean_outliers (Some d) outliers_csv w =
               (Inr (cleaned_data (after_loop d w)), snd (clean_outliers (Some d) outliers_csv w))"
    by (rule clean_outliers_completes[OF assms(2)])
  note r = clean_outliers_Inr[OF run]
  have "heap (snd (clean_outliers (Some d) outliers_csv w)) (cleaned_data (after_loop d w)) = heap w d"
    using r(2) by (simp add: al start_simps)
  moreover have "stdout (snd (clean_outliers (Some d) outliers_csv w)) = stdout w"
    using r(3) by (simp add: al start_simps)
  moreover have "files (snd (clean_outliers (Some d) outliers_csv w)) outliers_csv
                   = Some \<lparr>header = [], records = []\<rparr>"
    using r(4) by (simp add: al start_simps DataFrame_def)
  ultimately show ?thesis
    using run loop_body_skip by blast
qed

theorem C7_witness:
  "map snd (columns (heap (world_with names_frame) 0)) = [Object] \<and>
   \<not> is_numeric_dtype Object \<and>
   (\<exists>k w'. clean_outliers (Some 0) ''outliers.csv'' (world_with names_frame) = (Inr k, w') \<and>
      heap w' k = names_frame \<and> stdout w' = [] \<and>
      files w' ''outliers.csv'' = Some \<lparr>header = [], records = []\<rparr>)"
proof -
  have a: "\<forall>c \<in> set (columns (heap (world_with names_frame) 0)). \<not> is_numeric_dtype (snd c)"
    by (simp add: world_with_def names_frame_def is_numeric_dtype_def)
  have b: "writable (world_with names_frame) ''outliers.csv''"
    by (simp add: world_with_def)
  have c: "map snd (columns (heap (world_with names_frame) 0)) = [Object]"
    "\<not> is_numeric_dtype Object"
    by (simp_all add: world_with_def names_frame_def is_numeric_dtype_def)
  from C7_no_numeric_column_keeps_everything[OF a b] c
  show ?thesis
    by (simp add: world_with_def)
qed

section \<open>The quartiles of a pass\<close>





section \<open>The outliers file\<close>










section \<open>Missing values\<close>










section \<open>Quartiles by position\<close>

lemma floor_quarter: "\<lfloor>rat_of_nat m / 4\<rfloor> = int (m div 4)"
proof -
  have "rat_of_nat m / 4 = of_nat m / of_nat 4" by simp
  then show ?thesis
    by (simp only: floor_divide_of_nat_eq)
qed

lemma floor_three_quarter: "\<lfloor>3 * rat_of_nat m / 4\<rfloor> = int ((3 * m) div 4)"
proof -
  have "3 * rat_of_nat m / 4 = of_nat (3 * m) / of_nat 4" by simp
  then show ?thesis
    by (simp only: floor_divide_of_nat_eq)
qed

lemma frac_quarter: "rat_of_nat m / 4 - rat_of_nat (m div 4) = rat_of_nat (m mod 4) / 4"
proof -
  have "rat_of_nat m = of_nat (4 * (m div 4) + m mod 4)" by simp
  also have "\<dots> = 4 * of_nat (m div 4) + of_nat (m mod 4)"
    by (simp only: of_nat_add of_nat_mult of_nat_numeral)
  finally show ?thesis by (simp add: field_simps)
qed

lemma frac_three_quarter:
  "3 * rat_of_nat m / 4 - rat_of_nat ((3 * m) div 4) = rat_of_nat ((3 * m) mod 4) / 4"
proof -
  have "rat_of_nat (3 * m) = of_nat (4 * ((3 * m) div 4) + (3 * m) mod 4)" by simp
  also have "\<dots> = 4 * of_nat ((3 * m) div 4) + of_nat ((3 * m) mod 4)"
    by (simp only: of_nat_add of_nat_mult of_nat_numeral)
  finally have "3 * rat_of_nat m = 4 * of_nat ((3 * m) div 4) + of_nat ((3 * m) mod 4)"
    by simp
  then show ?thesis by (simp add: field_simps)
qed

lemma quantile_first:
  assumes "length (dropna col) = Suc m"
  shows "quantile col (1/4) =
           Some (sort (dropna col) ! (m div 4)
                 + (sort (dropna col) ! min (m div 4 + 1) m - sort (dropna col) ! (m div 4))
                   * (of_nat (m mod 4) / 4))"
proof -
  have len: "length (sort (dropna col)) = Suc m"
    using assms by simp
  have lo: "nat \<lfloor>(1/4 :: rat) * of_nat (Suc m - 1)\<rfloor> = m div 4"
    using floor_quarter[of m] by simp
  have g: "(1/4 :: rat) * of_nat (Suc m - 1) - of_nat (m div 4) = of_nat (m mod 4) / 4"
    using frac_quarter[of m] by simp
  show ?thesis
    unfolding quantile_def Let_def len lo g by simp
qed

lemma quantile_third:
  assumes "length (dropna col) = Suc m"
  shows "quantile col (3/4) =
           Some (sort (dropna col) ! ((3 * m) div 4)
                 + (sort (dropna col) ! min ((3 * m) div 4 + 1) m - sort (dropna col) ! ((3 * m) div 4))
                   * (of_nat ((3 * m) mod 4) / 4))"
proof -
  have len: "length (sort (dropna col)) = Suc m"
    using assms by simp
  have lo: "nat \<lfloor>(3/4 :: rat) * of_nat (Suc m - 1)\<rfloor> = (3 * m) div 4"
    using floor_three_quarter[of m] by simp
  have g: "(3/4 :: rat) * of_nat (Suc m - 1) - of_nat ((3 * m) div 4) = of_nat ((3 * m) mod 4) / 4"
    using frac_three_quarter[of m] by simp
  show ?thesis
    unfolding quantile_def Let_def len lo g by simp
qed


section \<open>The example of the specification\<close>

lemma getitem_single_column: "getitem (single_column c t xs) c = map Num (map snd xs)"
  by (simp add: getitem_def single_column_def get_loc_def comp_def split_def)

lemma cell_at_single_column:
  "cell_at (single_column c t xs) c \<lparr>label = l, cells = [Num v]\<rparr> = Num v"
  by (simp add: cell_at_def single_column_def get_loc_def)

lemma dtype_of_single_column: "dtype_of (single_column c t xs) c = t"
  by (simp add: dtype_of_def single_column_def get_loc_def)

lemma dropna_simps:
  "dropna [] = []"
  "dropna (Num x # col) = x # dropna col"
  "dropna (NaN # col) = dropna col"
  "dropna (Obj y # col) = dropna col"
  by (simp_all add: dropna_def List.map_filter_def)

lemma example_quartiles:
  fixes df :: frame
  assumes "df = single_column c t [(l0, 1), (l1, 2), (l2, 3), (l3, 1000)]"
  shows "Q1 df c = Some (7/4)" "Q3 df c = Some (1009/4)" "IQR df c = Some (501/2)"
    "lower_bound df c = Some (- 374)" "upper_bound df c = Some 628"
proof -
  have len: "length (dropna (getitem df c)) = Suc 3"
    by (simp add: assms getitem_single_column dropna_simps)
  have srt: "sort (dropna (getitem df c)) = [1, 2, 3, 1000]"
    by (simp add: assms getitem_single_column dropna_simps)
  show q1: "Q1 df c = Some (7/4)"
    unfolding Q1_def quantile_first[OF len] srt by simp
  show q3: "Q3 df c = Some (1009/4)"
    unfolding Q3_def quantile_third[OF len] srt by simp
  show iqr: "IQR df c = Some (501/2)"
    unfolding IQR_def q1 q3 by simp
  show "lower_bound df c = Some (- 374)"
    unfolding lower_bound_def q1 iqr by simp
  show "upper_bound df c = Some 628"
    unfolding upper_bound_def q3 iqr by simp
qed

text \<open>
  C4, as the code computes it. For a table with one numeric column holding 1, 2, 3, 1000,
  the 25th percentile sits at rank 0.75 and the 75th at rank 2.25, so
  Q1 = 1 + 0.75 (2 - 1) = 1.75 and Q3 = 3 + 0.25 (1000 - 3) = 252.25, IQR = 250.5 and the
  bounds are -374 and 628. The row with 1000 is above the upper bound: the call prints
  one line for it, writes it to the file and returns the rows with 1, 2, 3 in that order.
\<close>

theorem C4_example_quartiles_and_kept_rows:
  assumes "is_numeric_dtype t" and "writable w outliers_csv"
    and "heap w d = single_column c t [(l0, 1), (l1, 2), (l2, 3), (l3, 1000)]"
  shows "Q1 (heap w d) c = Some (7/4) \<and> Q3 (heap w d) c = Some (1009/4) \<and>
         IQR (heap w d) c = Some (501/2) \<and>
         lower_bound (heap w d) c = Some (- 374) \<and> upper_bound (heap w d) c = Some 628 \<and>
         (\<exists>k w'. clean_outliers (Some d) outliers_csv w = (Inr k, w') \<and>
            heap w' k = single_column c t [(l0, 1), (l1, 2), (l2, 3)] \<and>
            stdout w' = stdout w @ [Outlier_in_row l3 c (Num 1000)] \<and>
            files w' outliers_csv = Some \<lparr>header = [c], records = [[Num 1000]]\<rparr>)"
proof -
  let ?df = "single_column c t [(l0, 1), (l1, 2), (l2, 3), (l3, 1000)]"
  note q = example_quartiles[OF assms(3)]
  have w0: "working (start d w) = ?df"
    by (simp add: start_simps assms(3))
  have num: "is_numeric_dtype (dtype_of (working (start d w)) c)"
    by (simp add: w0 dtype_of_single_column assms(1))
  have out: "is_outlier ?df c \<lparr>label = l, cells = [Num v]\<rparr> \<longleftrightarrow> v < - 374 \<or> 628 < v" for l v
    using q(4,5) by (simp add: is_outlier_def cell_at_single_column assms(3))
  have al: "after_loop d w = loop_body c (start d w)"
    by (simp add: after_loop_eq assms(3) single_column_def)
  have rows0: "rows ?df = [\<lparr>label = l0, cells = [Num 1]\<rparr>, \<lparr>label = l1, cells = [Num 2]\<rparr>,
                            \<lparr>label = l2, cells = [Num 3]\<rparr>, \<lparr>label = l3, cells = [Num 1000]\<rparr>]"
    by (simp add: single_column_def)
  have kept: "working (after_loop d w) = single_column c t [(l0, 1), (l1, 2), (l2, 3)]"
    unfolding al loop_body_numeric(1)[OF num] w0 rows0
    by (simp add: out) (simp add: single_column_def)
  have coll: "outlier_rows (after_loop d w) = [\<lparr>sname = l3, sindex = [c], svalues = [Num 1000]\<rparr>]"
    unfolding al loop_body_numeric(2)[OF num] w0 rows0
    by (simp add: out start_simps to_series_def) (simp add: single_column_def)
  have prt: "stdout (world (after_loop d w)) = stdout w @ [Outlier_in_row l3 c (Num 1000)]"
    unfolding al loop_body_numeric(3)[OF num] w0 rows0
    by (simp add: out start_simps cell_at_single_column)
  note run = clean_outliers_completes[OF assms(2), of d]
  note r = clean_outliers_Inr[OF run]
  have "files (snd (clean_outliers (Some d) outliers_csv w)) outliers_csv
          = Some \<lparr>header = [c], records = [[Num 1000]]\<rparr>"
    using r(4) by (simp add: coll DataFrame_def)
  with run r(2,3) kept prt q show ?thesis
    by (metis assms(3))
qed

theorem C4_witness:
  "is_numeric_dtype Int64 \<and> writable (world_with example_frame) ''outliers.csv'' \<and>
   Q1 example_frame ''A'' = Some (7/4) \<and> Q3 example_frame ''A'' = Some (1009/4) \<and>
   IQR example_frame ''A'' = Some (501/2) \<and>
   lower_bound example_frame ''A'' = Some (- 374) \<and> upper_bound example_frame ''A'' = Some 628 \<and>
   (\<exists>k w'. clean_outliers (Some 0) ''outliers.csv'' (world_with example_frame) = (Inr k, w') \<and>
      heap w' k = single_column ''A'' Int64 [(0, 1), (1, 2), (2, 3)] \<and>
      stdout w' = [Outlier_in_row 3 ''A'' (Num 1000)] \<and>
      files w' ''outliers.csv'' = Some \<lparr>header = [''A''], records = [[Num 1000]]\<rparr>)"
proof -
  have a: "is_numeric_dtype Int64"
    by (simp add: is_numeric_dtype_def)
  have b: "writable (world_with example_frame) ''outliers.csv''"
    by (simp add: world_with_def)
  have c: "heap (world_with example_frame) 0
             = single_column ''A'' Int64 [(0, 1), (1, 2), (2, 3), (3, 1000)]"
    by (simp add: world_with_def example_frame_def)
  have d: "heap (world_with example_frame) 0 = example_frame"
    by (simp add: world_with_def)
  have e: "stdout (world_with example_frame) = []"
    by (simp add: world_with_def)
  from C4_example_quartiles_and_kept_rows[OF a b c] a b
  show ?thesis
    unfolding d e by simp
qed

text \<open>
  The quartiles the claim gives, 1.5 and 2.5, and what follows from them, are not what
  the code computes on this table.
\<close>

theorem C4_counterexample:
  "Q1 example_frame ''A'' \<noteq> Some (3/2) \<and> Q3 example_frame ''A'' \<noteq> Some (5/2) \<and>
   IQR example_frame ''A'' \<noteq> Some 1 \<and>
   lower_bound example_frame ''A'' \<noteq> Some 0 \<and> upper_bound example_frame ''A'' \<noteq> Some 4"
  using example_quartiles[OF example_frame_def] by simp

section \<open>The quantile and the percentile of the specification\<close>









section \<open>Columns with one value, or with one row apart\<close>












end
